theory Spec2Isabelle
  imports Main "HOL-Library.Word"
begin

unbundle bit_operations_syntax

section \<open>Data model of \<^verbatim>\<open>scripts/bes.py\<close>\<close>

text \<open>
  A Python \<^verbatim>\<open>bytes\<close> object is a list of 8-bit words. The integers that the
  script decodes from it are Python integers (unbounded), so they are natural numbers
  here: a decoded field is below \<open>2 ^ 32\<close>, but sums and products of fields never wrap.
\<close>

type_synonym byte = "8 word"
type_synonym bytes = "byte list"

text \<open>
  The exceptions the script can raise. \<open>StructError\<close> is \<^verbatim>\<open>struct.error\<close>, raised by
  \<^verbatim>\<open>unpack_from\<close> on a buffer that is too short; \<open>UnicodeDecodeError\<close> comes from
  \<^verbatim>\<open>str(pchar, 'ascii')\<close>. Only \<open>RuntimeError\<close> and \<open>FileNotFoundError\<close> are caught
  (in \<^verbatim>\<open>processFile\<close>).
\<close>

datatype error =
    StructError
  | UnicodeDecodeError
  | IndexError
  | ValueError
  | RuntimeError string
  | FileNotFoundError string

text \<open>\<^verbatim>\<open>logging\<close> levels; \<^verbatim>\<open>logging.VERBOSE = logging.DEBUG + 5\<close>.\<close>

datatype level = VERBOSE | INFO | WARNING | ERROR

text \<open>
  The string \<^verbatim>\<open>sPrint\<close> that the Bitmap and PteroMat handlers build up, kept as the list of
  the pieces appended to it. The natural number that comes first in a piece is the
  indentation \<^verbatim>\<open>" "*(index*2)\<close>, kept as the index.
\<close>

datatype piece =
    Bitmap_head nat nat nat bytes
  | Map_piece nat string nat string
  | PteroMat_head nat nat nat string nat byte byte byte byte
  | Texture_piece nat string nat string
  | Lit string

text \<open>
  The messages given to \<^verbatim>\<open>logging\<close>, one constructor for each format string of the
  script, with the formatted arguments in the order of the \<^verbatim>\<open>format\<close> call (an
  indentation is kept as its index). The lines logged at the level \<^verbatim>\<open>logging.VERBOSE\<close>
  are the type \<open>trace\<close>; the other messages are the type \<open>msg\<close>.
\<close>

datatype trace =
    Object_trace nat nat nat nat string
  | Unk30_trace nat nat nat
  | Mesh_trace nat nat nat
  | Vertices_trace nat nat nat nat nat
  | Faces_trace nat nat nat
  | Properties_trace nat nat string
  | Unk35_trace nat nat bytes bytes bytes
  | Unk36_trace nat nat
  | Unk38_trace nat nat
  | User_info_trace nat nat nat string nat string nat
  | Material_trace nat nat nat
  | SPrint "piece list"

datatype msg =
    Undocumented_bitmap
  | Texture_type_not_match nat nat
  | Unknown_bits_in_texture nat
  | Unsupported_version bytes
  | Expected_trailing_zeros
  | Unknown_block nat
  | Unexpected_block nat nat
  | Invalid_occurrences_max nat nat
  | Contains_more_data nat nat
  | Invalid_occurrences_min nat
  | Vertex_size_not_match nat
  | Block_size_not_match nat
  | Block_size_not_match_vs nat nat nat
  | Invalid_name_length nat nat
  | Unknown_coordinates nat
  | Unknown_bitmap nat
  | Block_size_not_match_plain
  | Invalid_transparent_sides nat
  | Expected_zeros_collision
  | Expected_zeros_vegetation
  | Unknown_texture nat
  | Model string
  | Exception error
  | Trace trace

text \<open>
  What a run leaves behind: the calls of \<^verbatim>\<open>logging\<close> in order (whatever the configured
  threshold shows of them), and the dumps \<^verbatim>\<open>hex_dump\<close> writes to the standard output.
\<close>

datatype event = Log level msg | Hex_dump bytes nat

text \<open>
  A function of the script returns the events it logged and either its value or the
  exception that ended it: \<open>(events, Inr value)\<close> or \<open>(events, Inl exception)\<close>.
\<close>

type_synonym 'a res = "event list \<times> (error + 'a)"

text \<open>\<^verbatim>\<open>data[a:b]\<close> for non-negative \<open>a\<close> and \<open>b\<close>.\<close>

definition slice :: "'a list \<Rightarrow> nat \<Rightarrow> nat \<Rightarrow> 'a list" where
  "slice data a b = take (b - a) (drop a data)"

text \<open>A little-endian unsigned integer.\<close>

fun le_nat :: "bytes \<Rightarrow> nat" where
  "le_nat [] = 0"
| "le_nat (b # bs) = unat b + 256 * le_nat bs"

text \<open>The \<^verbatim>\<open>I\<close> field (32 bits, little-endian) at offset \<open>off\<close> of an unpacked buffer.\<close>

definition u32 :: "bytes \<Rightarrow> nat \<Rightarrow> nat" where
  "u32 b off = le_nat (slice b off (off + 4))"

text \<open>
  \<^verbatim>\<open>BES.unpack(fmt, data)\<close>: \<open>st_len\<close> is \<^verbatim>\<open>struct.calcsize(fmt)\<close> (the formats are all
  \<^verbatim>\<open><\<close>, without padding). \<^verbatim>\<open>unpack_from\<close> raises \<^verbatim>\<open>struct.error\<close> when \<^verbatim>\<open>data[:st_len]\<close>
  has fewer than \<open>st_len\<close> bytes; otherwise the fields are read from these bytes, at their
  offsets.
\<close>

definition unpack :: "nat \<Rightarrow> bytes \<Rightarrow> error + bytes" where
  "unpack st_len data =
     (if length (take st_len data) < st_len then Inl StructError
      else Inr (take st_len data))"

text \<open>\<^verbatim>\<open>str.strip(chars)\<close> for a single character.\<close>

definition strip :: "'a \<Rightarrow> 'a list \<Rightarrow> 'a list" where
  "strip c s = rev (dropWhile (\<lambda>x. x = c) (rev (dropWhile (\<lambda>x. x = c) s)))"

text \<open>
  \<^verbatim>\<open>str(pchar, 'ascii').strip(chr(0))\<close>: decoding raises \<^verbatim>\<open>UnicodeDecodeError\<close> on a byte
  above \<open>0x7f\<close>.
\<close>

definition pchar_to_string :: "bytes \<Rightarrow> error + string" where
  "pchar_to_string pchar =
     (if list_ex (\<lambda>b. 0x80 \<le> b) pchar then Inl UnicodeDecodeError
      else Inr (strip (CHR 0x00) (map (\<lambda>b. char_of (unat b)) pchar)))"

subsection \<open>Constants\<close>

definition Header_sig :: bytes where
  "Header_sig = [0x42, 0x45, 0x53, 0x00]"

definition Header_ver :: bytes where
  "Header_ver = [0x30, 0x31, 0x30, 0x30, 0x00]"

definition BlockID_Object :: nat where "BlockID_Object = 0x0001"
definition BlockID_Unk30 :: nat where "BlockID_Unk30 = 0x0030"
definition BlockID_Mesh :: nat where "BlockID_Mesh = 0x0031"
definition BlockID_Vertices :: nat where "BlockID_Vertices = 0x0032"
definition BlockID_Faces :: nat where "BlockID_Faces = 0x0033"
definition BlockID_Properties :: nat where "BlockID_Properties = 0x0034"
definition BlockID_Unk35 :: nat where "BlockID_Unk35 = 0x0035"
definition BlockID_Unk36 :: nat where "BlockID_Unk36 = 0x0036"
definition BlockID_Unk38 :: nat where "BlockID_Unk38 = 0x0038"
definition BlockID_UserInfo :: nat where "BlockID_UserInfo = 0x0070"
definition BlockID_Material :: nat where "BlockID_Material = 0x1000"
definition BlockID_Bitmap :: nat where "BlockID_Bitmap = 0x1001"
definition BlockID_PteroMat :: nat where "BlockID_PteroMat = 0x1002"

datatype BlockPresence = OptSingle | OptMultiple | ReqSingle | ReqMultiple

definition Bitmap_maps :: "string list" where
  "Bitmap_maps = [''Diffuse Color'', ''Displacement'', ''Bump'', ''Ambient Color'',
     ''Specular Color'', ''Specular Level'', ''Glossiness'', ''Self-Illumination'',
     ''UNKNOWN'', ''Filter Color'', ''Reflection'', ''Refraction'']"

definition PteroMat_texs :: "string list" where
  "PteroMat_texs = [''Diffuse #1 - Ground'', ''Diffuse #2 - Multitexture'',
     ''Diffuse #3 - Overlay'', ''Environment #1'', ''LightMap'', ''UNKNOWN'',
     ''Environment #2'', ''LightMap (Engine Lights)'']"

definition PteroMat_offset :: nat where
  "PteroMat_offset = 16"

text \<open>
  A schema (the dictionary \<^verbatim>\<open>blocks\<close> of \<^verbatim>\<open>parse_blocks\<close>) is an association list, in
  the order the dictionary was written: \<^verbatim>\<open>for label in blocks\<close> follows it.
\<close>

type_synonym schema = "(nat \<times> BlockPresence) list"

section \<open>Block handlers without children\<close>

definition parse_block_desc :: "bytes \<Rightarrow> error + nat \<times> nat" where
  "parse_block_desc data =
     (case unpack 8 data of
        Inl e \<Rightarrow> Inl e
      | Inr b \<Rightarrow> Inr (u32 b 0, u32 b 4))"

definition parse_block_vertices :: "bytes \<Rightarrow> nat \<Rightarrow> unit res" where
  "parse_block_vertices data index =
     (case unpack 12 data of
        Inl e \<Rightarrow> ([], Inl e)
      | Inr b \<Rightarrow>
          let count = u32 b 0; size' = u32 b 4; vType = u32 b 8;
              texCnt = drop_bit 8 vType AND 0xFF
          in ([Log VERBOSE (Trace (Vertices_trace index (length data) count size' vType))] @
              (if 24 + 8 * texCnt \<noteq> size' then [Log ERROR (Vertex_size_not_match index)]
               else if length (drop 12 data) \<noteq> size' * count
                 then [Log ERROR (Block_size_not_match index)]
               else []),
              Inr ()))"

definition parse_block_faces :: "bytes \<Rightarrow> nat \<Rightarrow> unit res" where
  "parse_block_faces data index =
     (case unpack 4 data of
        Inl e \<Rightarrow> ([], Inl e)
      | Inr b \<Rightarrow>
          let count = u32 b 0
          in ([Log VERBOSE (Trace (Faces_trace index (length data) count))] @
              (if length (drop 4 data) \<noteq> count * 12
                 then [Log ERROR (Block_size_not_match index)]
               else []),
              Inr ()))"

definition parse_block_properties :: "bytes \<Rightarrow> nat \<Rightarrow> unit res" where
  "parse_block_properties data index =
     (case unpack 4 data of
        Inl e \<Rightarrow> ([], Inl e)
      | Inr b \<Rightarrow>
          let count = u32 b 0
          in (case unpack count (drop 4 data) of
                Inl e \<Rightarrow> ([], Inl e)
              | Inr prop \<Rightarrow>
                  (case pchar_to_string prop of
                     Inl e \<Rightarrow> ([], Inl e)
                   | Inr s \<Rightarrow>
                       ([Log VERBOSE (Trace (Properties_trace index (length data) s))] @
                        (if count + 4 \<noteq> length data
                           then [Log ERROR (Block_size_not_match_vs index (length data) (count + 4))]
                         else []),
                        Inr ()))))"

text \<open>The three floats of \<^verbatim>\<open><fff\<close> are kept as their four bytes each.\<close>

definition parse_block_unk35 :: "bytes \<Rightarrow> nat \<Rightarrow> unit res" where
  "parse_block_unk35 data index =
     (case unpack 12 data of
        Inl e \<Rightarrow> ([], Inl e)
      | Inr b \<Rightarrow>
          let x = slice b 0 4; y = slice b 4 8; z = slice b 8 12
          in ([Log VERBOSE (Trace (Unk35_trace index (length data) x y z))] @
              (if length data \<noteq> 100 then [Log ERROR (Block_size_not_match index)] else []),
              Inr ()))"

definition parse_block_unk36 :: "bytes \<Rightarrow> nat \<Rightarrow> unit res" where
  "parse_block_unk36 data index = ([Log VERBOSE (Trace (Unk36_trace index (length data)))], Inr ())"

definition parse_block_unk38 :: "bytes \<Rightarrow> nat \<Rightarrow> unit res" where
  "parse_block_unk38 data index = ([Log VERBOSE (Trace (Unk38_trace index (length data)))], Inr ())"

definition parse_block_user_info :: "bytes \<Rightarrow> nat \<Rightarrow> unit res" where
  "parse_block_user_info data index =
     (case unpack 12 data of
        Inl e \<Rightarrow> ([], Inl e)
      | Inr b \<Rightarrow>
          let name_size = u32 b 0; comment_size = u32 b 4; unknown = u32 b 8
          in (case unpack name_size (drop 12 data) of
                Inl e \<Rightarrow> ([], Inl e)
              | Inr name \<Rightarrow>
                  (case unpack comment_size (drop 76 data) of
                     Inl e \<Rightarrow> ([], Inl e)
                   | Inr comment \<Rightarrow>
                       (case pchar_to_string name of
                          Inl e \<Rightarrow> ([], Inl e)
                        | Inr name_s \<Rightarrow>
                            (case pchar_to_string comment of
                               Inl e \<Rightarrow> ([], Inl e)
                             | Inr comment_s \<Rightarrow>
                                 ([Log VERBOSE (Trace (User_info_trace index (length data) name_size
                                     name_s comment_size comment_s unknown))] @
                                  (if name_size > 64
                                     then [Log ERROR (Invalid_name_length index name_size)]
                                   else []) @
                                  (if length data \<noteq> 76 + comment_size
                                     then [Log ERROR (Block_size_not_match_vs index (length data)
                                             (76 + comment_size))]
                                   else []),
                                  Inr ()))))))"

subsection \<open>Bitmap\<close>

text \<open>
  Lines 339 to 354 of \<^verbatim>\<open>parse_block_bitmap\<close>: the two tests of the coordinate flags of one
  texture map. They append a marker to \<^verbatim>\<open>sPrint\<close> or log an error.
\<close>

definition bitmap_coord :: "nat \<Rightarrow> piece list \<Rightarrow> event list \<times> piece list" where
  "bitmap_coord coord sPrint =
     (let (evsU, sPrintU) =
            (if coord AND 0x5 \<noteq> 0 then
               (if coord AND 0x5 = 0x1 then ([], sPrint @ [Lit '', U tile''])
                else if coord AND 0x5 = 0x4 then ([], sPrint @ [Lit '', U mirror''])
                else ([Log ERROR (Unknown_coordinates coord)], sPrint))
             else ([], sPrint));
          (evsV, sPrintV) =
            (if coord AND 0xA \<noteq> 0 then
               (if coord AND 0xA = 0x2 then ([], sPrintU @ [Lit '', V tile''])
                else if coord AND 0xA = 0xA then ([], sPrintU @ [Lit '', V mirror''])
                else ([Log ERROR (Unknown_coordinates coord)], sPrintU))
             else ([], sPrintU))
      in (evsU @ evsV, sPrintV))"

text \<open>
  One turn of \<^verbatim>\<open>for mapID in range(32)\<close>, on the loop's state \<open>(ptr, sPrint)\<close>.
\<close>

definition bitmap_map ::
  "bytes \<Rightarrow> nat \<Rightarrow> nat \<Rightarrow> nat \<Rightarrow> nat \<times> piece list \<Rightarrow> (nat \<times> piece list) res" where
  "bitmap_map data index bType mapID st =
     (case st of (ptr, sPrint) \<Rightarrow>
        if bType AND push_bit mapID 1 \<noteq> 0 then
          if mapID < length Bitmap_maps then
            (let evs0 = (if Bitmap_maps ! mapID = ''UNKNOWN''
                         then [Log WARNING Undocumented_bitmap] else [])
             in case unpack 8 (drop ptr data) of
                  Inl e \<Rightarrow> (evs0, Inl e)
                | Inr b \<Rightarrow>
                    let name_size = u32 b 0; coord = u32 b 4
                    in (case unpack name_size (drop (ptr + 8) data) of
                          Inl e \<Rightarrow> (evs0, Inl e)
                        | Inr name \<Rightarrow>
                            (case pchar_to_string name of
                               Inl e \<Rightarrow> (evs0, Inl e)
                             | Inr s \<Rightarrow>
                                 (case bitmap_coord coord
                                         (sPrint @ [Map_piece (index + 1) (Bitmap_maps ! mapID)
                                                      name_size s]) of
                                    (evs, sPrint') \<Rightarrow>
                                      (evs0 @ evs, Inr (ptr + (8 + name_size), sPrint'))))))
          else ([Log ERROR (Unknown_bitmap (push_bit mapID 1))], Inr (ptr, sPrint))
        else ([], Inr (ptr, sPrint)))"

fun bitmap_maps ::
  "nat list \<Rightarrow> bytes \<Rightarrow> nat \<Rightarrow> nat \<Rightarrow> nat \<times> piece list \<Rightarrow> (nat \<times> piece list) res" where
  "bitmap_maps [] data index bType st = ([], Inr st)"
| "bitmap_maps (mapID # mapIDs) data index bType st =
     (case bitmap_map data index bType mapID st of
        (evs, Inl e) \<Rightarrow> (evs, Inl e)
      | (evs, Inr st') \<Rightarrow>
          (case bitmap_maps mapIDs data index bType st' of
             (evs', r) \<Rightarrow> (evs @ evs', r)))"

definition parse_block_bitmap :: "bytes \<Rightarrow> nat \<Rightarrow> unit res" where
  "parse_block_bitmap data index =
     (case unpack 12 data of
        Inl e \<Rightarrow> ([], Inl e)
      | Inr b \<Rightarrow>
          let unk1 = u32 b 0; unk2 = slice b 4 8; bType = u32 b 8
          in (case bitmap_maps [0..<32] data index bType
                     (12, [Bitmap_head index (length data) unk1 unk2]) of
                (evs, Inl e) \<Rightarrow> (evs, Inl e)
              | (evs, Inr (ptr, sPrint)) \<Rightarrow>
                  (evs @
                   (if ptr \<noteq> length data then [Log ERROR Block_size_not_match_plain] else []) @
                   [Log VERBOSE (Trace (SPrint sPrint))],
                   Inr ())))"

subsection \<open>PteroMat\<close>

text \<open>\<^verbatim>\<open>xs[i]\<close> for a Python integer \<open>i\<close>: a negative index counts from the end.\<close>

definition py_index :: "'a list \<Rightarrow> int \<Rightarrow> error + 'a" where
  "py_index xs i =
     (if 0 \<le> i \<and> i < int (length xs) then Inr (xs ! nat i)
      else if i < 0 \<and> - int (length xs) \<le> i then Inr (xs ! nat (int (length xs) + i))
      else Inl IndexError)"

text \<open>
  \<^verbatim>\<open>BES.PteroMat.parseTexture\<close>. The script calls it with \<open>16 \<le> texID < 24\<close> only; for
  another \<open>texID\<close>, \<^verbatim>\<open>texs[texID - offset]\<close> raises \<^verbatim>\<open>IndexError\<close> or
  \<^verbatim>\<open>1 << (texID - offset)\<close> raises \<^verbatim>\<open>ValueError\<close> (a negative shift count).
\<close>

definition parseTexture :: "bytes \<Rightarrow> nat \<Rightarrow> nat \<Rightarrow> (nat \<times> piece list) res" where
  "parseTexture data index texID =
     (case unpack 8 data of
        Inl e \<Rightarrow> ([], Inl e)
      | Inr b \<Rightarrow>
          let coord = u32 b 0; name_size = u32 b 4
          in (case unpack name_size (drop 8 data) of
                Inl e \<Rightarrow> ([], Inl e)
              | Inr name \<Rightarrow>
                  (case py_index PteroMat_texs (int texID - int PteroMat_offset) of
                     Inl e \<Rightarrow> ([], Inl e)
                   | Inr tex \<Rightarrow>
                       let evs1 = (if tex = ''UNKNOWN''
                                   then [Log WARNING Undocumented_bitmap] else [])
                       in if int texID - int PteroMat_offset < 0 then (evs1, Inl ValueError)
                          else
                            let evs2 =
                                  (if drop_bit PteroMat_offset coord \<noteq>
                                      push_bit (texID - PteroMat_offset) 1
                                   then [Log ERROR (Texture_type_not_match coord (push_bit texID 1))]
                                   else []);
                                evs3 =
                                  (if coord AND 0xFFFC \<noteq> 0
                                   then [Log WARNING (Unknown_bits_in_texture coord)]
                                   else [])
                            in (case pchar_to_string name of
                                  Inl e \<Rightarrow> (evs1 @ evs2 @ evs3, Inl e)
                                | Inr s \<Rightarrow>
                                    (evs1 @ evs2 @ evs3,
                                     Inr (8 + name_size,
                                          [Texture_piece (index + 1) tex name_size s] @
                                          (if coord AND 0x1 \<noteq> 0 then [Lit '', U tile''] else []) @
                                          (if coord AND 0x2 \<noteq> 0 then [Lit '', V tile''] else [])))))))"

text \<open>One turn of \<^verbatim>\<open>for texID in range(32)\<close>, on the loop's state \<open>(ptr, sPrint)\<close>.\<close>

definition ptero_mat_tex ::
  "bytes \<Rightarrow> nat \<Rightarrow> nat \<Rightarrow> nat \<Rightarrow> nat \<times> piece list \<Rightarrow> (nat \<times> piece list) res" where
  "ptero_mat_tex data index pType texID st =
     (case st of (ptr, sPrint) \<Rightarrow>
        if pType AND push_bit texID 1 \<noteq> 0 then
          if texID \<ge> PteroMat_offset \<and> texID < PteroMat_offset + length PteroMat_texs then
            (case parseTexture (drop ptr data) (index + 1) texID of
               (evs, Inl e) \<Rightarrow> (evs, Inl e)
             | (evs, Inr (dataSize, sPrintNew)) \<Rightarrow>
                 (evs, Inr (ptr + dataSize, sPrint @ sPrintNew)))
          else ([Log ERROR (Unknown_texture (push_bit texID 1))], Inr (ptr, sPrint))
        else ([], Inr (ptr, sPrint)))"

fun ptero_mat_texs ::
  "nat list \<Rightarrow> bytes \<Rightarrow> nat \<Rightarrow> nat \<Rightarrow> nat \<times> piece list \<Rightarrow> (nat \<times> piece list) res" where
  "ptero_mat_texs [] data index pType st = ([], Inr st)"
| "ptero_mat_texs (texID # texIDs) data index pType st =
     (case ptero_mat_tex data index pType texID st of
        (evs, Inl e) \<Rightarrow> (evs, Inl e)
      | (evs, Inr st') \<Rightarrow>
          (case ptero_mat_texs texIDs data index pType st' of
             (evs', r) \<Rightarrow> (evs @ evs', r)))"

definition parse_block_ptero_mat :: "bytes \<Rightarrow> nat \<Rightarrow> unit res" where
  "parse_block_ptero_mat data index =
     (case unpack 20 data of
        Inl e \<Rightarrow> ([], Inl e)
      | Inr b \<Rightarrow>
          let tSides = u32 b 0; pType = u32 b 4; collisMat = slice b 8 12;
              unk4 = u32 b 12; veget = slice b 16 20
          in (case unpack 4 (drop 20 data) of
                Inl e \<Rightarrow> ([], Inl e)
              | Inr bn \<Rightarrow>
                  let name_size = u32 bn 0
                  in (case unpack name_size (drop 24 data) of
                        Inl e \<Rightarrow> ([], Inl e)
                      | Inr name \<Rightarrow>
                          let evs0 =
                                (if tSides AND 0xFFFFFFE \<noteq> 0
                                 then [Log WARNING (Invalid_transparent_sides tSides)] else []) @
                                (if drop 2 collisMat \<noteq> [0, 0]
                                 then [Log WARNING Expected_zeros_collision] else []) @
                                (if drop 2 veget \<noteq> [0, 0]
                                 then [Log WARNING Expected_zeros_vegetation] else [])
                          in (case pchar_to_string name of
                                Inl e \<Rightarrow> (evs0, Inl e)
                              | Inr s \<Rightarrow>
                                  (case ptero_mat_texs [0..<32] data index pType
                                          (24 + name_size,
                                           [PteroMat_head index (length data) name_size s
                                              (tSides + 1) (collisMat ! 0) (collisMat ! 1)
                                              (veget ! 0) (veget ! 1)]) of
                                     (evs, Inl e) \<Rightarrow> (evs0 @ evs, Inl e)
                                   | (evs, Inr (ptr, sPrint)) \<Rightarrow>
                                       (evs0 @ evs @ [Log VERBOSE (Trace (SPrint sPrint))] @
                                        (if ptr \<noteq> length data
                                         then [Log ERROR Block_size_not_match_plain] else []),
                                        Inr ()))))))"

section \<open>The scan of sibling blocks and the handlers of blocks with children\<close>

text \<open>The dictionaries given to \<^verbatim>\<open>parse_blocks\<close>, by the function that gives them.\<close>

definition parse_data_blocks :: schema where
  "parse_data_blocks =
     [(BlockID_Object, ReqSingle), (BlockID_UserInfo, ReqSingle)]"

definition parse_block_object_blocks :: schema where
  "parse_block_object_blocks =
     [(BlockID_Object, OptMultiple), (BlockID_Unk30, OptSingle),
      (BlockID_Properties, OptSingle), (BlockID_Unk35, OptSingle),
      (BlockID_Unk38, OptSingle), (BlockID_Material, OptSingle)]"

definition parse_block_unk30_blocks :: schema where
  "parse_block_unk30_blocks =
     [(BlockID_Mesh, OptMultiple), (BlockID_Properties, ReqSingle),
      (BlockID_Unk35, ReqSingle), (BlockID_Unk36, OptSingle)]"

definition parse_block_mesh_blocks :: schema where
  "parse_block_mesh_blocks =
     [(BlockID_Vertices, ReqSingle), (BlockID_Faces, ReqSingle)]"

definition parse_block_material_blocks :: schema where
  "parse_block_material_blocks =
     [(BlockID_Bitmap, OptMultiple), (BlockID_PteroMat, OptMultiple)]"

text \<open>
  Lines 180 to 182 of \<^verbatim>\<open>parse_blocks\<close>: \<^verbatim>\<open>blocks_parsed[label] = False\<close> for every label
  of \<^verbatim>\<open>blocks\<close>.
\<close>

definition init_blocks_parsed :: "schema \<Rightarrow> (nat \<rightharpoonup> bool)" where
  "init_blocks_parsed blocks = map_of (map (\<lambda>(label, p). (label, False)) blocks)"

text \<open>
  Lines 189 to 197: the test of the label against \<^verbatim>\<open>blocks\<close>, before the block is
  handled. It returns what it logs and the new \<^verbatim>\<open>blocks_parsed\<close>.
\<close>

definition check_presence ::
  "schema \<Rightarrow> (nat \<rightharpoonup> bool) \<Rightarrow> nat \<Rightarrow> nat \<Rightarrow> event list \<times> (nat \<rightharpoonup> bool)" where
  "check_presence blocks blocks_parsed index label =
     (case map_of blocks label of
        None \<Rightarrow> ([Log WARNING (Unexpected_block index label)], blocks_parsed)
      | Some p \<Rightarrow>
          ((if (p = OptSingle \<or> p = ReqSingle) \<and> blocks_parsed label = Some True
            then [Log WARNING (Invalid_occurrences_max index label)] else []),
           blocks_parsed(label \<mapsto> True)))"

text \<open>
  Lines 203 to 211: what \<^verbatim>\<open>parse_blocks\<close> logs after its loop. \<open>label\<close> is the label of
  the last block of the loop.
\<close>

definition after_blocks ::
  "schema \<Rightarrow> bytes \<Rightarrow> nat \<Rightarrow> nat \<Rightarrow> (nat \<rightharpoonup> bool) \<Rightarrow> nat \<Rightarrow> event list" where
  "after_blocks blocks data index start blocks_parsed label =
     (if start \<noteq> length data then [Log ERROR (Contains_more_data index label)] else []) @
     concat (map (\<lambda>l.
        if (map_of blocks l = Some ReqSingle \<or> map_of blocks l = Some ReqMultiple) \<and>
           blocks_parsed l = Some False
        then [Log WARNING (Invalid_occurrences_min l)] else []) (map fst blocks))"

text \<open>Events logged before a call come before the events of the call.\<close>

definition prepend :: "event list \<Rightarrow> 'a res option \<Rightarrow> 'a res option" where
  "prepend evs r = map_option (\<lambda>(evs', x). (evs @ evs', x)) r"

text \<open>
  The four handlers of blocks with children call \<^verbatim>\<open>self.parse_blocks\<close>, and
  \<^verbatim>\<open>parse_blocks\<close> calls them through \<^verbatim>\<open>process_block_by_label\<close>. Here the handlers and
  \<^verbatim>\<open>process_block_by_label\<close> take the function to call for \<^verbatim>\<open>self.parse_blocks\<close> as
  their first argument \<open>scan\<close>; \<open>parse_blocks\<close> below gives itself for it. A result
  \<open>None\<close> says that the call does not return (see \<open>parse_blocks_loop\<close>).
\<close>

definition parse_block_object ::
  "(schema \<Rightarrow> bytes \<Rightarrow> nat \<Rightarrow> unit res option) \<Rightarrow> bytes \<Rightarrow> nat \<Rightarrow> unit res option" where
  "parse_block_object scan data index =
     (case unpack 8 data of
        Inl e \<Rightarrow> Some ([], Inl e)
      | Inr b \<Rightarrow>
          let children = u32 b 0; name_size = u32 b 4
          in (case unpack name_size (drop 8 data) of
                Inl e \<Rightarrow> Some ([], Inl e)
              | Inr name \<Rightarrow>
                  (case pchar_to_string name of
                     Inl e \<Rightarrow> Some ([], Inl e)
                   | Inr s \<Rightarrow>
                       prepend
                         [Log VERBOSE
                            (Trace (Object_trace index (length data) children name_size s))]
                         (scan parse_block_object_blocks (drop (8 + name_size) data)
                            (index + 1)))))"

definition parse_block_unk30 ::
  "(schema \<Rightarrow> bytes \<Rightarrow> nat \<Rightarrow> unit res option) \<Rightarrow> bytes \<Rightarrow> nat \<Rightarrow> unit res option" where
  "parse_block_unk30 scan data index =
     (case unpack 4 data of
        Inl e \<Rightarrow> Some ([], Inl e)
      | Inr b \<Rightarrow>
          let children = u32 b 0
          in prepend [Log VERBOSE (Trace (Unk30_trace index (length data) children))]
               (scan parse_block_unk30_blocks (drop 4 data) (index + 1)))"

definition parse_block_mesh ::
  "(schema \<Rightarrow> bytes \<Rightarrow> nat \<Rightarrow> unit res option) \<Rightarrow> bytes \<Rightarrow> nat \<Rightarrow> unit res option" where
  "parse_block_mesh scan data index =
     (case unpack 4 data of
        Inl e \<Rightarrow> Some ([], Inl e)
      | Inr b \<Rightarrow>
          let material = u32 b 0
          in prepend [Log VERBOSE (Trace (Mesh_trace index (length data) material))]
               (scan parse_block_mesh_blocks (drop 4 data) (index + 1)))"

definition parse_block_material ::
  "(schema \<Rightarrow> bytes \<Rightarrow> nat \<Rightarrow> unit res option) \<Rightarrow> bytes \<Rightarrow> nat \<Rightarrow> unit res option" where
  "parse_block_material scan data index =
     (case unpack 4 data of
        Inl e \<Rightarrow> Some ([], Inl e)
      | Inr b \<Rightarrow>
          let children = u32 b 0
          in prepend [Log VERBOSE (Trace (Material_trace index (length data) children))]
               (scan parse_block_material_blocks (drop 4 data) (index + 1)))"

definition process_block_by_label ::
  "(schema \<Rightarrow> bytes \<Rightarrow> nat \<Rightarrow> unit res option) \<Rightarrow> nat \<Rightarrow> bytes \<Rightarrow> nat \<Rightarrow> unit res option" where
  "process_block_by_label scan label subblock index =
     (if label = BlockID_Object then parse_block_object scan subblock index
      else if label = BlockID_Unk30 then parse_block_unk30 scan subblock index
      else if label = BlockID_Mesh then parse_block_mesh scan subblock index
      else if label = BlockID_Vertices then Some (parse_block_vertices subblock index)
      else if label = BlockID_Faces then Some (parse_block_faces subblock index)
      else if label = BlockID_Properties then Some (parse_block_properties subblock index)
      else if label = BlockID_Unk35 then Some (parse_block_unk35 subblock index)
      else if label = BlockID_Unk36 then Some (parse_block_unk36 subblock index)
      else if label = BlockID_Unk38 then Some (parse_block_unk38 subblock index)
      else if label = BlockID_UserInfo then Some (parse_block_user_info subblock index)
      else if label = BlockID_Material then parse_block_material scan subblock index
      else if label = BlockID_Bitmap then Some (parse_block_bitmap subblock index)
      else if label = BlockID_PteroMat then Some (parse_block_ptero_mat subblock index)
      else Some ([Log WARNING (Unknown_block label), Hex_dump subblock index], Inr ()))"

text \<open>
  \<^verbatim>\<open>parse_blocks\<close>. Its \<^verbatim>\<open>while\<close> loop does not end when a block declares the size 0 and
  its handler returns, so the function takes fuel: the first argument bounds the number
  of turns of the loop (one unit of fuel for each turn; the handler of the block, and
  the scans of its children, get what is left), and \<open>None\<close> says that the fuel ran out.
  \<open>parse_blocks_loop\<close> is the loop from the cursor \<open>start\<close>, followed by lines 203 to 211;
  \<open>label\<close> is the variable \<^verbatim>\<open>label\<close> of the script, which line 204 reads: before the
  first turn it is the last key of \<^verbatim>\<open>blocks\<close> (from the loop of line 181).
\<close>

fun parse_blocks_loop ::
  "nat \<Rightarrow> schema \<Rightarrow> bytes \<Rightarrow> nat \<Rightarrow> nat \<Rightarrow> (nat \<rightharpoonup> bool) \<Rightarrow> nat \<Rightarrow> unit res option" where
  "parse_blocks_loop 0 blocks data index start blocks_parsed label =
     (if length (drop start data) > 0 then None
      else Some (after_blocks blocks data index start blocks_parsed label, Inr ()))"
| "parse_blocks_loop (Suc n) blocks data index start blocks_parsed label =
     (if length (drop start data) > 0 then
        (case parse_block_desc (drop start data) of
           Inl e \<Rightarrow> Some ([], Inl e)
         | Inr (label', size') \<Rightarrow>
             (case check_presence blocks blocks_parsed index label' of
                (evs, blocks_parsed') \<Rightarrow>
                  (case process_block_by_label
                          (\<lambda>blocks2 data2 index2.
                              parse_blocks_loop n blocks2 data2 index2 0
                                (init_blocks_parsed blocks2) (fst (last blocks2)))
                          label' (slice data (start + 8) (start + size')) index of
                     None \<Rightarrow> None
                   | Some (evs', Inl e) \<Rightarrow> Some (evs @ evs', Inl e)
                   | Some (evs', Inr u) \<Rightarrow>
                       prepend (evs @ evs')
                         (parse_blocks_loop n blocks data index (start + size')
                            blocks_parsed' label'))))
      else Some (after_blocks blocks data index start blocks_parsed label, Inr ()))"

definition parse_blocks :: "nat \<Rightarrow> schema \<Rightarrow> bytes \<Rightarrow> nat \<Rightarrow> unit res option" where
  "parse_blocks n blocks data index =
     parse_blocks_loop n blocks data index 0 (init_blocks_parsed blocks) (fst (last blocks))"

section \<open>One file\<close>

definition parse_header :: "bytes \<Rightarrow> bytes res" where
  "parse_header data =
     (case unpack 16 data of
        Inl e \<Rightarrow> ([], Inl e)
      | Inr b \<Rightarrow>
          let sig = slice b 0 4; ver = slice b 4 9; unk1 = u32 b 9; unk2 = slice b 13 16
          in if sig \<noteq> Header_sig then ([], Inl (RuntimeError ''  Invalid header signature''))
             else ((if ver \<noteq> Header_ver then [Log WARNING (Unsupported_version ver)] else []) @
                   (if unk2 \<noteq> [0, 0, 0] then [Log WARNING Expected_trailing_zeros] else []),
                   Inr ver))"

definition parse_preview :: "bytes \<Rightarrow> error + bytes" where
  "parse_preview data =
     (if length data < 0x3010 then Inl (RuntimeError ''  Missing model preview image'')
      else Inr (slice data 0x10 0x3010))"

definition parse_data :: "nat \<Rightarrow> bytes \<Rightarrow> unit res option" where
  "parse_data n data = parse_blocks n parse_data_blocks (drop 0x3010 data) 0"

text \<open>
  The \<^verbatim>\<open>try\<close> block of \<^verbatim>\<open>processFile\<close>. \<open>fs\<close> is the file system: the content of each file
  that exists; \<^verbatim>\<open>open\<close> raises \<^verbatim>\<open>FileNotFoundError\<close> for another name. The value is the
  image given to \<^verbatim>\<open>savePreview\<close> (which writes it to a file with an image library), if any.
\<close>

definition processFile_try ::
  "nat \<Rightarrow> (string \<rightharpoonup> bytes) \<Rightarrow> string \<Rightarrow> bool \<Rightarrow> (bytes option) res option" where
  "processFile_try n fs fileName extract =
     (case fs fileName of
        None \<Rightarrow> Some ([], Inl (FileNotFoundError fileName))
      | Some data \<Rightarrow>
          (case parse_header data of
             (evs, Inl e) \<Rightarrow> Some (evs, Inl e)
           | (evs, Inr version) \<Rightarrow>
               (case parse_preview data of
                  Inl e \<Rightarrow> Some (evs, Inl e)
                | Inr preview \<Rightarrow>
                    if extract then Some (evs, Inr (Some preview))
                    else (case parse_data n data of
                            None \<Rightarrow> None
                          | Some (evs', Inl e) \<Rightarrow> Some (evs @ evs', Inl e)
                          | Some (evs', Inr u) \<Rightarrow> Some (evs @ evs', Inr None)))))"

text \<open>
  \<^verbatim>\<open>processFile\<close>: the two \<^verbatim>\<open>except\<close> clauses log a \<^verbatim>\<open>FileNotFoundError\<close> and a
  \<^verbatim>\<open>RuntimeError\<close> and return; any other exception leaves \<^verbatim>\<open>processFile\<close>.
\<close>

definition processFile ::
  "nat \<Rightarrow> (string \<rightharpoonup> bytes) \<Rightarrow> string \<Rightarrow> bool \<Rightarrow> (bytes option) res option" where
  "processFile n fs fileName extract =
     (case processFile_try n fs fileName extract of
        None \<Rightarrow> None
      | Some (evs, Inl (FileNotFoundError m)) \<Rightarrow>
          Some (Log INFO (Model fileName) # evs @ [Log ERROR (Exception (FileNotFoundError m))],
                Inr None)
      | Some (evs, Inl (RuntimeError m)) \<Rightarrow>
          Some (Log INFO (Model fileName) # evs @ [Log ERROR (Exception (RuntimeError m))],
                Inr None)
      | Some (evs, r) \<Rightarrow> Some (Log INFO (Model fileName) # evs, r))"

section \<open>The fixed fields of a block\<close>

text \<open>
  The number of bytes that the handler of a label unpacks first: \<^verbatim>\<open>struct.calcsize\<close> of the
  format of its first \<^verbatim>\<open>BES.unpack\<close> (\<^verbatim>\<open><II\<close> in \<^verbatim>\<open>parse_block_object\<close>, \<^verbatim>\<open><I4sI\<close> in
  \<^verbatim>\<open>parse_block_bitmap\<close>, \<^verbatim>\<open><II4sI4s\<close> in \<^verbatim>\<open>parse_block_ptero_mat\<close>, and so on). The
  handlers of Unk36 and Unk38 blocks unpack nothing, and a label without handler has
  none.
\<close>

definition fixed_fields :: "nat \<Rightarrow> nat" where
  "fixed_fields label =
     (if label = BlockID_Object then 8
      else if label = BlockID_Unk30 then 4
      else if label = BlockID_Mesh then 4
      else if label = BlockID_Vertices then 12
      else if label = BlockID_Faces then 4
      else if label = BlockID_Properties then 4
      else if label = BlockID_Unk35 then 12
      else if label = BlockID_Unk36 then 0
      else if label = BlockID_Unk38 then 0
      else if label = BlockID_UserInfo then 12
      else if label = BlockID_Material then 4
      else if label = BlockID_Bitmap then 12
      else if label = BlockID_PteroMat then 20
      else 0)"

section \<open>Object blocks inside Object blocks\<close>




section \<open>Basic facts\<close>

lemma unpack_ok: "st_len \<le> length data \<Longrightarrow> unpack st_len data = Inr (take st_len data)"
  by (simp add: unpack_def)

lemma unpack_short: "length data < st_len \<Longrightarrow> unpack st_len data = Inl StructError"
  by (simp add: unpack_def)

lemma u32_take: "off + 4 \<le> n \<Longrightarrow> u32 (take n b) off = u32 b off"
  by (simp add: u32_def slice_def drop_take min_def)







text \<open>The function \<open>parse_blocks_loop\<close> gives to the handlers is \<open>parse_blocks\<close>.\<close>

lemma scan_eq_parse_blocks:
  "(\<lambda>blocks2 data2 index2. parse_blocks_loop n blocks2 data2 index2 0
       (init_blocks_parsed blocks2) (fst (last blocks2))) = parse_blocks n"
  by (simp add: parse_blocks_def fun_eq_iff)

lemma parse_block_desc_short: "length data < 8 \<Longrightarrow> parse_block_desc data = Inl StructError"
  by (simp add: parse_block_desc_def unpack_short)

text \<open>With the cursor at the end of the span or after it, the loop is over.\<close>

lemma parse_blocks_loop_end:
  "length data \<le> start \<Longrightarrow>
   parse_blocks_loop n blocks data index start blocks_parsed label =
     Some (after_blocks blocks data index start blocks_parsed label, Inr ())"
  by (cases n) simp_all

text \<open>One turn of the loop, on a descriptor that could be decoded.\<close>

lemma parse_blocks_loop_step:
  assumes "start < length data"
    and "parse_block_desc (drop start data) = Inr (label', size')"
    and "check_presence blocks blocks_parsed index label' = (evs, blocks_parsed')"
  shows "parse_blocks_loop (Suc n) blocks data index start blocks_parsed label =
     (case process_block_by_label (parse_blocks n) label'
             (slice data (start + 8) (start + size')) index of
        None \<Rightarrow> None
      | Some (evs', Inl e) \<Rightarrow> Some (evs @ evs', Inl e)
      | Some (evs', Inr u) \<Rightarrow>
          prepend (evs @ evs')
            (parse_blocks_loop n blocks data index (start + size') blocks_parsed' label'))"
  using assms by (simp add: scan_eq_parse_blocks)

lemma prepend_Some: "prepend evs (Some (evs', x)) = Some (evs @ evs', x)"
  by (simp add: prepend_def)

text \<open>A file of 16 bytes or more that begins with the signature passes \<^verbatim>\<open>parse_header\<close>.\<close>

lemma parse_header_ok:
  assumes "16 \<le> length data" and "take 4 data = Header_sig"
  shows "snd (parse_header data) = Inr (slice (take 16 data) 4 9)"
  using assms by (simp add: parse_header_def unpack_ok slice_def Let_def min_def)

lemma after_blocks_more_data:
  "start \<noteq> length data \<Longrightarrow>
   after_blocks blocks data index start blocks_parsed label =
     [Log ERROR (Contains_more_data index label)] @
     after_blocks blocks data index (length data) blocks_parsed label"
  by (simp add: after_blocks_def)

lemma prepend_None: "prepend evs None = None"
  by (simp add: prepend_def)

text \<open>
  A block that declares the size 0 and whose handler returns, whatever the fuel: the
  cursor does not move, and the loop has no end. With any fuel the scan does not return.
\<close>

lemma size_zero_loop:
  assumes "start < length data"
    and "parse_block_desc (drop start data) = Inr (label', 0)"
    and "\<And>m. \<exists>es. process_block_by_label (parse_blocks m) label'
                   (slice data (start + 8) (start + 0)) index = Some (es, Inr ())"
  shows "parse_blocks_loop n blocks data index start blocks_parsed label = None"
proof (induction n arbitrary: blocks_parsed label)
  case 0
  show ?case using assms(1) by simp
next
  case (Suc n)
  obtain evs bp where c: "check_presence blocks blocks_parsed index label' = (evs, bp)"
    by (cases "check_presence blocks blocks_parsed index label'")
  obtain es where p: "process_block_by_label (parse_blocks n) label'
                        (slice data (start + 8) (start + 0)) index = Some (es, Inr ())"
    using assms(3) by blast
  show ?case
    by (simp only: parse_blocks_loop_step[OF assms(1,2) c] p option.case prod.case sum.case)
       (simp add: Suc.IH prepend_None)
qed

text \<open>The handler of Unk36 blocks returns on every payload.\<close>

lemma unk36_returns:
  "process_block_by_label scan 0x36 payload index =
     Some ([Log VERBOSE (Trace (Unk36_trace index (length payload)))], Inr ())"
  by (simp add: process_block_by_label_def parse_block_unk36_def BlockID_Object_def
        BlockID_Unk30_def BlockID_Mesh_def BlockID_Vertices_def BlockID_Faces_def
        BlockID_Properties_def BlockID_Unk35_def BlockID_Unk36_def)




text \<open>
  A payload shorter than the fixed fields of its label: the first \<^verbatim>\<open>BES.unpack\<close> of the
  handler raises \<^verbatim>\<open>struct.error\<close>, before anything is logged.
\<close>

lemmas BlockID_defs = BlockID_Object_def BlockID_Unk30_def BlockID_Mesh_def
  BlockID_Vertices_def BlockID_Faces_def BlockID_Properties_def BlockID_Unk35_def
  BlockID_Unk36_def BlockID_Unk38_def BlockID_UserInfo_def BlockID_Material_def
  BlockID_Bitmap_def BlockID_PteroMat_def

lemma short_payload_raises_each:
  "length payload < 8 \<Longrightarrow>
     process_block_by_label scan BlockID_Object payload index = Some ([], Inl StructError)"
  "length payload < 4 \<Longrightarrow>
     process_block_by_label scan BlockID_Unk30 payload index = Some ([], Inl StructError)"
  "length payload < 4 \<Longrightarrow>
     process_block_by_label scan BlockID_Mesh payload index = Some ([], Inl StructError)"
  "length payload < 12 \<Longrightarrow>
     process_block_by_label scan BlockID_Vertices payload index = Some ([], Inl StructError)"
  "length payload < 4 \<Longrightarrow>
     process_block_by_label scan BlockID_Faces payload index = Some ([], Inl StructError)"
  "length payload < 4 \<Longrightarrow>
     process_block_by_label scan BlockID_Properties payload index = Some ([], Inl StructError)"
  "length payload < 12 \<Longrightarrow>
     process_block_by_label scan BlockID_Unk35 payload index = Some ([], Inl StructError)"
  "length payload < 12 \<Longrightarrow>
     process_block_by_label scan BlockID_UserInfo payload index = Some ([], Inl StructError)"
  "length payload < 4 \<Longrightarrow>
     process_block_by_label scan BlockID_Material payload index = Some ([], Inl StructError)"
  "length payload < 12 \<Longrightarrow>
     process_block_by_label scan BlockID_Bitmap payload index = Some ([], Inl StructError)"
  "length payload < 20 \<Longrightarrow>
     process_block_by_label scan BlockID_PteroMat payload index = Some ([], Inl StructError)"
  by (simp_all add: process_block_by_label_def BlockID_defs unpack_short
        parse_block_object_def parse_block_unk30_def parse_block_mesh_def parse_block_vertices_def
        parse_block_faces_def parse_block_properties_def parse_block_unk35_def parse_block_user_info_def
        parse_block_material_def parse_block_bitmap_def parse_block_ptero_mat_def)

lemma short_payload_raises:
  assumes "length payload < fixed_fields label"
  shows "process_block_by_label scan label payload index = Some ([], Inl StructError)"
  using assms
  by (auto simp add: fixed_fields_def short_payload_raises_each split: if_splits)

text \<open>A map whose bit is not set in \<^verbatim>\<open>bType\<close> is passed over.\<close>

lemma bitmap_map_skip:
  "\<not> bit bType mapID \<Longrightarrow> bitmap_map data index bType mapID st = ([], Inr st)"
  by (cases st) (simp add: bitmap_map_def bit_iff_and_push_bit_not_eq_0)























section \<open>Coordinate flags of a Bitmap texture map (C4)\<close>

text \<open>
  The handler on a Bitmap block of one map (bit 0, "Diffuse Color") with an empty name
  and \<open>coord = 0x8\<close>.
\<close>

lemma parse_block_bitmap_coord_8:
  "parse_block_bitmap [0, 0, 0, 0, 0, 0, 0, 0, 1, 0, 0, 0, 0, 0, 0, 0, 8, 0, 0, 0] 0 =
     ([Log ERROR (Unknown_coordinates 8),
       Log VERBOSE (Trace (SPrint [Bitmap_head 0 20 0 [0, 0, 0, 0],
                                   Map_piece 1 ''Diffuse Color'' 0 []]))], Inr ())"
proof -
  let ?d = "[0, 0, 0, 0, 0, 0, 0, 0, 1, 0, 0, 0, 0, 0, 0, 0, 8, 0, 0, 0] :: bytes"
  have m0: "bitmap_map ?d 0 1 0 (12, [Bitmap_head 0 20 0 [0, 0, 0, 0]]) =
      ([Log ERROR (Unknown_coordinates 8)],
       Inr (20, [Bitmap_head 0 20 0 [0, 0, 0, 0], Map_piece 1 ''Diffuse Color'' 0 []]))"
    by (simp add: bitmap_map_def Bitmap_maps_def unpack_def u32_def slice_def
          pchar_to_string_def strip_def bitmap_coord_def)
  have rest: "0 \<notin> set ms \<Longrightarrow> bitmap_maps ms ?d 0 1 st = ([], Inr st)" for ms st
    by (induction ms arbitrary: st) (simp_all add: bitmap_map_skip bit_1_iff bit_Suc_0_iff)
  have u: "[0..<32] = 0 # [1..<32]" by (simp add: upt_conv_Cons)
  have z: "0 \<notin> set [1..<32]" by simp
  have "bitmap_maps [0..<32] ?d 0 1 (12, [Bitmap_head 0 20 0 [0, 0, 0, 0]]) =
      ([Log ERROR (Unknown_coordinates 8)],
       Inr (20, [Bitmap_head 0 20 0 [0, 0, 0, 0], Map_piece 1 ''Diffuse Color'' 0 []]))"
    unfolding u
    by (simp only: bitmap_maps.simps m0 rest[OF z] prod.case sum.case append_Nil2)
  moreover have "unpack 12 ?d = Inr (take 12 ?d)" by (simp add: unpack_def)
  moreover have "u32 (take 12 ?d) 0 = 0" "u32 (take 12 ?d) 8 = 1"
      "slice (take 12 ?d) 4 8 = [0, 0, 0, 0]" "length ?d = 20"
    by (simp_all add: u32_def slice_def)
  ultimately show ?thesis
    by (simp only: parse_block_bitmap_def Let_def sum.case prod.case) simp
qed

text \<open>
  C4 says that the V-axis bits \<open>{0x2, 0x8}\<close> of \<^verbatim>\<open>coord\<close> are read like the U-axis bits
  \<open>{0x1, 0x4}\<close>: \<open>0x2\<close> is "V tile", \<open>0x8\<close> alone is "V mirror", and \<open>0xA\<close> (both) is one error
  "Unknown coordinates settings". The script does so for the U axis (\<open>0x4\<close> alone is
  "U mirror", \<open>0x5\<close> is the error), but line 350 compares the V bits with \<open>0xA\<close> where the U
  axis compares with the single bit: for \<open>coord = 0x8\<close> the script logs the error and no
  marker, and for \<open>coord = 0xA\<close> it appends "V mirror" and logs no error. The last conjunct
  is the whole handler on a Bitmap block of one map (bit 0, "Diffuse Color") with an empty
  name and \<open>coord = 0x8\<close>.
\<close>

theorem C4_bitmap_coord_V_axis:
  "bitmap_coord 0x4 [] = ([], [Lit '', U mirror'']) \<and>
   bitmap_coord 0x5 [] = ([Log ERROR (Unknown_coordinates 0x5)], []) \<and>
   bitmap_coord 0x8 [] = ([Log ERROR (Unknown_coordinates 0x8)], []) \<and>
   bitmap_coord 0xA [] = ([], [Lit '', V mirror'']) \<and>
   parse_block_bitmap [0, 0, 0, 0, 0, 0, 0, 0, 1, 0, 0, 0, 0, 0, 0, 0, 8, 0, 0, 0] 0 =
     ([Log ERROR (Unknown_coordinates 8),
       Log VERBOSE (Trace (SPrint [Bitmap_head 0 20 0 [0, 0, 0, 0],
                                   Map_piece 1 ''Diffuse Color'' 0 []]))], Inr ())"
  using parse_block_bitmap_coord_8 by (simp add: bitmap_coord_def)

section \<open>The two checks of a Vertices block (C5)\<close>

text \<open>
  C5 as amended: for every Vertices block whose payload holds the three fixed fields
  (12 bytes), with \<open>texCnt = (vType >> 8) & 0xFF\<close>, the handler logs its trace line and
  then: the error "Vertex size do not match" when the stride differs from
  \<open>24 + 8 * texCnt\<close>; otherwise (\<^verbatim>\<open>elif\<close>) the error "Block size do not match" when the
  length of the vertex data differs from stride times count; otherwise nothing. So the
  second check is made only when the first one passes, and at most one error is logged.
\<close>

theorem C5_vertices_checks:
  assumes "12 \<le> length data"
  shows "parse_block_vertices data index =
    ([Log VERBOSE (Trace (Vertices_trace index (length data)
        (u32 data 0) (u32 data 4) (u32 data 8)))] @
     (if u32 data 4 \<noteq> 24 + 8 * (drop_bit 8 (u32 data 8) AND 0xFF)
        then [Log ERROR (Vertex_size_not_match index)]
      else if length data - 12 \<noteq> u32 data 4 * u32 data 0
        then [Log ERROR (Block_size_not_match index)]
      else []), Inr ())"
  using assms by (auto simp add: parse_block_vertices_def unpack_ok u32_take Let_def)

text \<open>
  The examples of C5: count 2, stride 32, \<open>texCnt = 1\<close> and 64 bytes of vertex data give no
  error; the same block with 63 bytes gives the one error "Block size do not match".
\<close>

theorem C5_vertices_checks_witness:
  "12 \<le> length ([2, 0, 0, 0, 32, 0, 0, 0, 0, 1, 0, 0] @ replicate 64 (0 :: byte)) \<and>
   parse_block_vertices ([2, 0, 0, 0, 32, 0, 0, 0, 0, 1, 0, 0] @ replicate 64 0) 0 =
     ([Log VERBOSE (Trace (Vertices_trace 0 76 2 32 256))], Inr ()) \<and>
   parse_block_vertices ([2, 0, 0, 0, 32, 0, 0, 0, 0, 1, 0, 0] @ replicate 63 0) 0 =
     ([Log VERBOSE (Trace (Vertices_trace 0 75 2 32 256)),
       Log ERROR (Block_size_not_match 0)], Inr ())"
  using C5_vertices_checks [of "[2, 0, 0, 0, 32, 0, 0, 0, 0, 1, 0, 0] @ replicate 64 0" 0]
        C5_vertices_checks [of "[2, 0, 0, 0, 32, 0, 0, 0, 0, 1, 0, 0] @ replicate 63 0" 0]
  by (simp add: u32_def slice_def)

text \<open>
  C5 as stated fails: with count 2, stride 0, \<open>texCnt = 1\<close> and 64 bytes of vertex data
  both conditions are violated (\<open>0 \<noteq> 32\<close> and \<open>64 \<noteq> 0 * 2\<close>), and only the first error is
  logged.
\<close>

theorem C5_vertices_checks_counterexample:
  "parse_block_vertices ([2, 0, 0, 0, 0, 0, 0, 0, 0, 1, 0, 0] @ replicate 64 0) 0 =
     ([Log VERBOSE (Trace (Vertices_trace 0 76 2 0 256)),
       Log ERROR (Vertex_size_not_match 0)], Inr ())"
  by code_simp

section \<open>Unknown bits of a PteroMat texture (C8)\<close>

text \<open>
  C8 as amended: for every PteroMat texture record that holds its fixed fields and its
  name, and every \<open>texID\<close> the handler calls \<open>parseTexture\<close> with (16 to 23), the warning
  "Unknown bits in texture" is logged if and only if \<^verbatim>\<open>coord & 0xFFFC\<close> is not zero, that
  is, some bit 2 to 15 of \<^verbatim>\<open>coord\<close> is set. The low two bits are the markers "U tile" and
  "V tile" and do not raise the warning.
\<close>

theorem C8_unknown_bits:
  assumes "8 \<le> length data" and "u32 data 4 \<le> length data - 8"
    and "16 \<le> texID" and "texID < 24"
  shows "Log WARNING (Unknown_bits_in_texture (u32 data 0))
            \<in> set (fst (parseTexture data index texID))
           \<longleftrightarrow> u32 data 0 AND 0xFFFC \<noteq> 0"
proof -
  have i: "py_index PteroMat_texs (int texID - int PteroMat_offset) =
             Inr (PteroMat_texs ! (texID - 16))"
    using assms(3,4)
    by (simp add: py_index_def PteroMat_offset_def PteroMat_texs_def nat_diff_distrib')
  show ?thesis
    using assms i
    by (auto simp add: parseTexture_def unpack_ok u32_take Let_def PteroMat_offset_def
             split: sum.splits)
qed

text \<open>A texture record with \<open>coord = 0x10004\<close> (type bit 16, and bit 2): the warning.\<close>

theorem C8_unknown_bits_witness:
  "8 \<le> length [4, 0, 1, 0, 0, 0, 0, 0 :: byte] \<and>
   u32 [4, 0, 1, 0, 0, 0, 0, 0] 4 \<le> length [4, 0, 1, 0, 0, 0, 0, 0 :: byte] - 8 \<and>
   (16 :: nat) \<le> 16 \<and> (16 :: nat) < 24 \<and>
   Log WARNING (Unknown_bits_in_texture 0x10004)
     \<in> set (fst (parseTexture [4, 0, 1, 0, 0, 0, 0, 0] 3 16)) \<and>
   (0x10004 :: nat) AND 0xFFFC \<noteq> 0"
  using C8_unknown_bits [of "[4, 0, 1, 0, 0, 0, 0, 0]" 16 3]
  by (simp add: u32_def slice_def)

text \<open>
  C8 as stated fails: a texture record with \<open>coord = 0x10001\<close> (type bit 16, and the low
  bit \<open>0x1\<close>) logs nothing; the low bit gives the marker "U tile".
\<close>

theorem C8_unknown_bits_counterexample:
  "parseTexture [1, 0, 1, 0, 0, 0, 0, 0] 3 16 =
     ([], Inr (8, [Texture_piece 4 ''Diffuse #1 - Ground'' 0 [], Lit '', U tile'']))"
  by (simp add: parseTexture_def unpack_def u32_def slice_def py_index_def PteroMat_texs_def
        PteroMat_offset_def pchar_to_string_def strip_def)

section \<open>Zero bytes on both sides of a decoded string (C10)\<close>



section \<open>A span or a payload that is too short (C2)\<close>

text \<open>
  C2 as amended: the scan does raise to its caller; \<^verbatim>\<open>parse_blocks\<close> has no \<^verbatim>\<open>try\<close>. With
  the cursor before the end of the span:
  \<^item> when fewer than eight bytes are left, \<^verbatim>\<open>unpack_from\<close> raises \<^verbatim>\<open>struct.error\<close> in
    \<^verbatim>\<open>parse_block_desc\<close>, the exception leaves the scan, and nothing is logged in that
    turn of the loop;
  \<^item> when a descriptor is decoded and the payload of the block is shorter than the fixed
    fields of its label, the handler raises \<^verbatim>\<open>struct.error\<close>, and the exception leaves
    the scan after what the test of the label against \<^verbatim>\<open>blocks\<close> has logged.
\<close>

theorem C2_short_descriptor_raises:
  assumes "start < length data"
  shows "(length data < start + 8 \<longrightarrow>
            parse_blocks_loop (Suc n) blocks data index start blocks_parsed label =
              Some ([], Inl StructError)) \<and>
         (\<forall>label' size'.
            parse_block_desc (drop start data) = Inr (label', size') \<and>
            length (slice data (start + 8) (start + size')) < fixed_fields label' \<longrightarrow>
            parse_blocks_loop (Suc n) blocks data index start blocks_parsed label =
              Some (fst (check_presence blocks blocks_parsed index label'), Inl StructError))"
proof (intro conjI impI allI)
  assume "length data < start + 8"
  then have "parse_block_desc (drop start data) = Inl StructError"
    by (simp add: parse_block_desc_short)
  then show "parse_blocks_loop (Suc n) blocks data index start blocks_parsed label =
               Some ([], Inl StructError)"
    using assms by simp
next
  fix label' size'
  assume h: "parse_block_desc (drop start data) = Inr (label', size') \<and>
             length (slice data (start + 8) (start + size')) < fixed_fields label'"
  obtain evs bp where c: "check_presence blocks blocks_parsed index label' = (evs, bp)"
    by (cases "check_presence blocks blocks_parsed index label'")
  have p: "process_block_by_label (parse_blocks n) label'
             (slice data (start + 8) (start + size')) index = Some ([], Inl StructError)"
    using h[THEN conjunct2] by (rule short_payload_raises)
  show "parse_blocks_loop (Suc n) blocks data index start blocks_parsed label =
          Some (fst (check_presence blocks blocks_parsed index label'), Inl StructError)"
    by (simp only: parse_blocks_loop_step[OF assms h[THEN conjunct1] c] p option.case
          prod.case sum.case c fst_conv append_Nil2)
qed

text \<open>
  A span of three bytes at the top level; and a Faces block at the top level with a
  payload of two bytes (the handler unpacks four).
\<close>

theorem C2_short_descriptor_raises_witness:
  "(0 :: nat) < length [0x33, 0, 0 :: byte] \<and> length [0x33, 0, 0 :: byte] < 0 + 8 \<and>
   parse_blocks 1 parse_data_blocks [0x33, 0, 0] 0 = Some ([], Inl StructError) \<and>
   (0 :: nat) < length [0x33, 0, 0, 0, 10, 0, 0, 0, 1, 2 :: byte] \<and>
   parse_block_desc (drop 0 [0x33, 0, 0, 0, 10, 0, 0, 0, 1, 2]) = Inr (0x33, 10) \<and>
   length (slice [0x33, 0, 0, 0, 10, 0, 0, 0, 1, 2 :: byte] (0 + 8) (0 + 10)) < fixed_fields 0x33 \<and>
   parse_blocks 1 parse_data_blocks [0x33, 0, 0, 0, 10, 0, 0, 0, 1, 2] 0 =
     Some ([Log WARNING (Unexpected_block 0 0x33)], Inl StructError)"
proof -
  let ?a = "[0x33, 0, 0] :: bytes"
  let ?b = "[0x33, 0, 0, 0, 10, 0, 0, 0, 1, 2] :: bytes"
  let ?bp = "init_blocks_parsed parse_data_blocks"
  let ?l = "fst (last parse_data_blocks)"
  have la: "(0 :: nat) < length ?a" by simp
  have sa: "length ?a < 0 + 8" by simp
  have ra: "parse_blocks 1 parse_data_blocks ?a 0 = Some ([], Inl StructError)"
    unfolding parse_blocks_def One_nat_def
    using C2_short_descriptor_raises [OF la, of 0 parse_data_blocks 0 ?bp ?l,
            THEN conjunct1, rule_format, OF sa] .
  have lb: "(0 :: nat) < length ?b" by simp
  have db: "parse_block_desc (drop 0 ?b) = Inr (0x33, 10)"
    by (simp add: parse_block_desc_def unpack_def u32_def slice_def)
  have fb: "length (slice ?b (0 + 8) (0 + 10)) < fixed_fields 0x33"
    by (simp add: slice_def fixed_fields_def BlockID_Object_def BlockID_Unk30_def
          BlockID_Mesh_def BlockID_Vertices_def BlockID_Faces_def)
  have cb: "fst (check_presence parse_data_blocks ?bp 0 0x33) =
              [Log WARNING (Unexpected_block 0 0x33)]"
    by (simp add: check_presence_def parse_data_blocks_def BlockID_Object_def
          BlockID_UserInfo_def)
  have rb: "parse_blocks 1 parse_data_blocks ?b 0 =
              Some ([Log WARNING (Unexpected_block 0 0x33)], Inl StructError)"
    unfolding parse_blocks_def One_nat_def
    using C2_short_descriptor_raises [OF lb, of 0 parse_data_blocks 0 ?bp ?l,
            THEN conjunct2, rule_format, OF conjI, OF db fb]
    by (simp only: cb)
  show ?thesis using la sa ra lb db fb rb by (intro conjI)
qed

text \<open>
  C2 as stated fails on both of its examples: a span of one byte, and an Object block
  with an empty payload (the handler unpacks eight bytes of fixed fields), end the scan
  with \<^verbatim>\<open>struct.error\<close>.
\<close>

theorem C2_short_descriptor_raises_counterexample:
  "parse_blocks 1 parse_data_blocks [0x33] 0 = Some ([], Inl StructError) \<and>
   parse_blocks 1 parse_data_blocks [1, 0, 0, 0, 8, 0, 0, 0] 0 = Some ([], Inl StructError)"
  by code_simp

section \<open>A block whose label is not in the schema (C1)\<close>

text \<open>
  C1 as amended: when the label decoded at the cursor is not a key of \<^verbatim>\<open>blocks\<close>, the
  scan logs the one warning "Unexpected block", and then handles the block like any
  other: \<^verbatim>\<open>process_block_by_label\<close> is called on its payload (lines 199 and 200 are not
  under the \<^verbatim>\<open>else\<close> of line 189), what it logs follows the warning, an exception it raises
  ends the scan, and when it returns the scan goes on at the cursor plus the declared
  size, with \<^verbatim>\<open>blocks_parsed\<close> unchanged.
\<close>

theorem C1_unexpected_block_dispatched:
  assumes "map_of blocks label' = None" and "start < length data"
    and "parse_block_desc (drop start data) = Inr (label', size')"
  shows "parse_blocks_loop (Suc n) blocks data index start blocks_parsed label =
     (case process_block_by_label (parse_blocks n) label'
             (slice data (start + 8) (start + size')) index of
        None \<Rightarrow> None
      | Some (evs, Inl e) \<Rightarrow> Some ([Log WARNING (Unexpected_block index label')] @ evs, Inl e)
      | Some (evs, Inr u) \<Rightarrow>
          prepend ([Log WARNING (Unexpected_block index label')] @ evs)
            (parse_blocks_loop n blocks data index (start + size') blocks_parsed label'))"
proof -
  have "check_presence blocks blocks_parsed index label' =
          ([Log WARNING (Unexpected_block index label')], blocks_parsed)"
    using assms(1) by (simp add: check_presence_def)
  from parse_blocks_loop_step[OF assms(2,3) this] show ?thesis .
qed

text \<open>
  A block with the label \<open>0x99\<close> at the top level: no handler knows this label, and
  \<^verbatim>\<open>process_block_by_label\<close> logs "Unknown block" and dumps the payload.
\<close>

theorem C1_unexpected_block_dispatched_witness:
  "map_of parse_data_blocks 0x99 = None \<and>
   (0 :: nat) < length [0x99, 0, 0, 0, 9, 0, 0, 0, 7 :: byte] \<and>
   parse_block_desc (drop 0 [0x99, 0, 0, 0, 9, 0, 0, 0, 7]) = Inr (0x99, 9) \<and>
   parse_blocks 1 parse_data_blocks [0x99, 0, 0, 0, 9, 0, 0, 0, 7] 0 =
     Some ([Log WARNING (Unexpected_block 0 0x99), Log WARNING (Unknown_block 0x99),
            Hex_dump [7] 0,
            Log WARNING (Invalid_occurrences_min 1), Log WARNING (Invalid_occurrences_min 0x70)],
           Inr ())"
proof -
  have m: "map_of parse_data_blocks 0x99 = None"
    by (simp add: parse_data_blocks_def BlockID_Object_def BlockID_UserInfo_def)
  have l: "(0 :: nat) < length [0x99, 0, 0, 0, 9, 0, 0, 0, 7 :: byte]" by simp
  have d: "parse_block_desc (drop 0 [0x99, 0, 0, 0, 9, 0, 0, 0, 7]) = Inr (0x99, 9)"
    by (simp add: parse_block_desc_def unpack_def u32_def slice_def)
  have p: "process_block_by_label (parse_blocks 0) 0x99 (slice [0x99, 0, 0, 0, 9, 0, 0, 0, 7] (0 + 8) (0 + 9)) 0
             = Some ([Log WARNING (Unknown_block 0x99), Hex_dump [7] 0], Inr ())"
    by (simp add: process_block_by_label_def slice_def BlockID_Object_def BlockID_Unk30_def
          BlockID_Mesh_def BlockID_Vertices_def BlockID_Faces_def BlockID_Properties_def
          BlockID_Unk35_def BlockID_Unk36_def BlockID_Unk38_def BlockID_UserInfo_def
          BlockID_Material_def BlockID_Bitmap_def BlockID_PteroMat_def)
  have e: "parse_blocks_loop 0 parse_data_blocks [0x99, 0, 0, 0, 9, 0, 0, 0, 7] 0 (0 + 9)
             (init_blocks_parsed parse_data_blocks) 0x99 =
           Some ([Log WARNING (Invalid_occurrences_min 1), Log WARNING (Invalid_occurrences_min 0x70)], Inr ())"
    by (simp add: after_blocks_def init_blocks_parsed_def parse_data_blocks_def
          BlockID_Object_def BlockID_UserInfo_def)
  have s: "parse_blocks_loop (Suc 0) parse_data_blocks [0x99, 0, 0, 0, 9, 0, 0, 0, 7] 0 0
             (init_blocks_parsed parse_data_blocks) (fst (last parse_data_blocks)) =
     Some ([Log WARNING (Unexpected_block 0 0x99), Log WARNING (Unknown_block 0x99),
            Hex_dump [7] 0,
            Log WARNING (Invalid_occurrences_min 1), Log WARNING (Invalid_occurrences_min 0x70)],
           Inr ())"
    using C1_unexpected_block_dispatched [OF m l d, of 0 0 "init_blocks_parsed parse_data_blocks"
            "fst (last parse_data_blocks)"]
    by (simp only: p e prepend_Some option.case prod.case sum.case append.simps)
  have r: "parse_blocks 1 parse_data_blocks [0x99, 0, 0, 0, 9, 0, 0, 0, 7] 0 =
     Some ([Log WARNING (Unexpected_block 0 0x99), Log WARNING (Unknown_block 0x99),
            Hex_dump [7] 0,
            Log WARNING (Invalid_occurrences_min 1), Log WARNING (Invalid_occurrences_min 0x70)],
           Inr ())"
    unfolding parse_blocks_def using s by (simp only: One_nat_def)
  show ?thesis using m l d r by (intro conjI)
qed

text \<open>
  C1 as stated fails: a Faces block at the top level, where the schema has only Object
  and UserInfo, is given to the handler of Faces blocks, which logs its line.
\<close>

theorem C1_unexpected_block_dispatched_counterexample:
  "parse_blocks 1 parse_data_blocks [0x33, 0, 0, 0, 12, 0, 0, 0, 0, 0, 0, 0] 0 =
     Some ([Log WARNING (Unexpected_block 0 0x33), Log VERBOSE (Trace (Faces_trace 0 4 0)),
            Log WARNING (Invalid_occurrences_min 1), Log WARNING (Invalid_occurrences_min 0x70)],
           Inr ())"
  by code_simp

section \<open>A file too short for the preview image (C6)\<close>

text \<open>
  C6 as amended: \<^verbatim>\<open>processFile\<close> calls \<^verbatim>\<open>parse_preview\<close> before it looks at \<^verbatim>\<open>extract\<close>.
  So for a file that exists, begins with the signature and has at least the 16 bytes of
  the header but fewer than \<open>0x3010\<close> bytes, the run ends with the error "Missing model
  preview image" after the warnings of \<^verbatim>\<open>parse_header\<close>, whether the preview is to be
  extracted or the blocks are to be checked; no block is scanned.
\<close>

theorem C6_missing_preview_both_modes:
  assumes "fs fileName = Some data" and "16 \<le> length data" and "length data < 0x3010"
    and "take 4 data = Header_sig"
  shows "processFile n fs fileName extract =
     Some (Log INFO (Model fileName) # fst (parse_header data) @
           [Log ERROR (Exception (RuntimeError ''  Missing model preview image''))], Inr None)"
proof -
  obtain evs where h: "parse_header data = (evs, Inr (slice (take 16 data) 4 9))"
    using parse_header_ok[OF assms(2,4)] by (cases "parse_header data") simp
  have "processFile_try n fs fileName extract =
          Some (evs, Inl (RuntimeError ''  Missing model preview image''))"
    using assms(1,3) h by (simp add: processFile_try_def parse_preview_def)
  then show ?thesis using h by (simp add: processFile_def)
qed

text \<open>A file of 16 bytes with the signature and the version, with extraction.\<close>

theorem C6_missing_preview_both_modes_witness:
  "[''f'' \<mapsto> [0x42, 0x45, 0x53, 0, 0x30, 0x31, 0x30, 0x30, 0, 0, 0, 0, 0, 0, 0, 0 :: byte]] ''f'' =
      Some [0x42, 0x45, 0x53, 0, 0x30, 0x31, 0x30, 0x30, 0, 0, 0, 0, 0, 0, 0, 0] \<and>
   processFile 0 [''f'' \<mapsto> [0x42, 0x45, 0x53, 0, 0x30, 0x31, 0x30, 0x30, 0, 0, 0, 0, 0, 0, 0, 0]] ''f'' True =
     Some ([Log INFO (Model ''f''),
            Log ERROR (Exception (RuntimeError ''  Missing model preview image''))], Inr None)"
  using C6_missing_preview_both_modes
          [of "[''f'' \<mapsto> [0x42, 0x45, 0x53, 0, 0x30, 0x31, 0x30, 0x30, 0, 0, 0, 0, 0, 0, 0, 0]]" "''f''"
              "[0x42, 0x45, 0x53, 0, 0x30, 0x31, 0x30, 0x30, 0, 0, 0, 0, 0, 0, 0, 0]" 0 True]
  by (simp add: Header_sig_def Header_ver_def parse_header_def unpack_def slice_def u32_def)

text \<open>
  C6 as stated fails: the same file without extraction does not reach the scan of its
  blocks; the run ends with the same error.
\<close>

theorem C6_missing_preview_both_modes_counterexample:
  "processFile 3 [''f'' \<mapsto> [0x42, 0x45, 0x53, 0, 0x30, 0x31, 0x30, 0x30, 0, 0, 0, 0, 0, 0, 0, 0]] ''f'' False =
     Some ([Log INFO (Model ''f''),
            Log ERROR (Exception (RuntimeError ''  Missing model preview image''))], Inr None)"
  by (simp add: processFile_def processFile_try_def parse_preview_def
        Header_sig_def Header_ver_def parse_header_def unpack_def slice_def u32_def)

section \<open>A block whose declared size overruns the span (C3)\<close>

text \<open>
  C3 as amended: \<^verbatim>\<open>parse_blocks\<close> does not compare the declared size with the span before
  it handles the block, and no test says that a declared size is 8 or more. For a
  descriptor decoded at the cursor:
  \<^item> when the declared size goes past the end of the span, the handler is called on what
    is left of the span after the descriptor (the slice \<^verbatim>\<open>data[start+8:start+size]\<close> stops
    at the end of \<^verbatim>\<open>data\<close>); when it returns, the cursor is past the end, the loop is over,
    and the error "contains more data" is logged after what the handler logged, followed
    by the warnings that the end of a scan logs for the labels that are required and
    were not seen;
  \<^item> when the declared size is 0 and the handler returns on the (empty) payload, the
    cursor does not move and the scan does not return: with every fuel the result is
    \<open>None\<close>.
\<close>

theorem C3_overrun_dispatched:
  assumes "start < length data"
    and "parse_block_desc (drop start data) = Inr (label', size')"
    and "check_presence blocks blocks_parsed index label' = (evs, blocks_parsed')"
  shows "(length data < start + size' \<and>
          process_block_by_label (parse_blocks n) label'
            (slice data (start + 8) (start + size')) index = Some (evs', Inr ()) \<longrightarrow>
            slice data (start + 8) (start + size') = drop (start + 8) data \<and>
            parse_blocks_loop (Suc n) blocks data index start blocks_parsed label =
              Some (evs @ evs' @ [Log ERROR (Contains_more_data index label')] @
                    after_blocks blocks data index (length data) blocks_parsed' label', Inr ())) \<and>
         (size' = 0 \<and>
          (\<forall>m. \<exists>es. process_block_by_label (parse_blocks m) label'
                   (slice data (start + 8) (start + size')) index = Some (es, Inr ())) \<longrightarrow>
            (\<forall>m. parse_blocks_loop m blocks data index start blocks_parsed label = None))"
proof (intro conjI impI allI)
  assume "length data < start + size' \<and>
          process_block_by_label (parse_blocks n) label'
            (slice data (start + 8) (start + size')) index = Some (evs', Inr ())"
  then have "length data < start + size'" by simp
  then show "slice data (start + 8) (start + size') = drop (start + 8) data"
    by (simp add: slice_def)
next
  assume h: "length data < start + size' \<and>
          process_block_by_label (parse_blocks n) label'
            (slice data (start + 8) (start + size')) index = Some (evs', Inr ())"
  have e: "parse_blocks_loop n blocks data index (start + size') blocks_parsed' label' =
             Some (after_blocks blocks data index (start + size') blocks_parsed' label', Inr ())"
    using h by (simp add: parse_blocks_loop_end)
  have a: "after_blocks blocks data index (start + size') blocks_parsed' label' =
             [Log ERROR (Contains_more_data index label')] @
             after_blocks blocks data index (length data) blocks_parsed' label'"
    using h by (simp add: after_blocks_more_data)
  show "parse_blocks_loop (Suc n) blocks data index start blocks_parsed label =
           Some (evs @ evs' @ [Log ERROR (Contains_more_data index label')] @
                 after_blocks blocks data index (length data) blocks_parsed' label', Inr ())"
    by (simp only: parse_blocks_loop_step[OF assms(1,2,3)] h[THEN conjunct2] option.case
          prod.case sum.case e a prepend_Some append_assoc)
next
  fix m
  assume z: "size' = 0 \<and>
          (\<forall>m. \<exists>es. process_block_by_label (parse_blocks m) label'
                   (slice data (start + 8) (start + size')) index = Some (es, Inr ()))"
  have s0: "size' = 0" using z by (rule conjunct1)
  have d: "parse_block_desc (drop start data) = Inr (label', 0)"
    using assms(2) unfolding s0 .
  have r: "\<exists>es. process_block_by_label (parse_blocks k) label'
                   (slice data (start + 8) (start + 0)) index = Some (es, Inr ())" for k
    using z[THEN conjunct2, rule_format, of k] unfolding s0 .
  show "parse_blocks_loop m blocks data index start blocks_parsed label = None"
    using assms(1) d r by (rule size_zero_loop)
qed

text \<open>
  An Unk36 block in an Unk30 block, with the declared size 20 and two bytes of payload;
  and an Unk38 block in an Object block, with the declared size 0.
\<close>

theorem C3_overrun_dispatched_witness:
  "(0 :: nat) < length [0x36, 0, 0, 0, 20, 0, 0, 0, 1, 2 :: byte] \<and>
   parse_block_desc (drop 0 [0x36, 0, 0, 0, 20, 0, 0, 0, 1, 2]) = Inr (0x36, 20) \<and>
   length [0x36, 0, 0, 0, 20, 0, 0, 0, 1, 2 :: byte] < 0 + 20 \<and>
   slice [0x36, 0, 0, 0, 20, 0, 0, 0, 1, 2 :: byte] (0 + 8) (0 + 20) = [1, 2] \<and>
   parse_blocks 1 parse_block_unk30_blocks [0x36, 0, 0, 0, 20, 0, 0, 0, 1, 2] 1 =
     Some ([Log VERBOSE (Trace (Unk36_trace 1 2)), Log ERROR (Contains_more_data 1 0x36),
            Log WARNING (Invalid_occurrences_min 0x34),
            Log WARNING (Invalid_occurrences_min 0x35)], Inr ()) \<and>
   parse_block_desc (drop 0 [0x38, 0, 0, 0, 0, 0, 0, 0]) = Inr (0x38, 0) \<and>
   parse_blocks 9 parse_block_object_blocks [0x38, 0, 0, 0, 0, 0, 0, 0] 1 = None"
proof -
  let ?d = "[0x36, 0, 0, 0, 20, 0, 0, 0, 1, 2] :: bytes"
  let ?bp = "(init_blocks_parsed parse_block_unk30_blocks)(0x36 \<mapsto> True)"
  have l: "(0 :: nat) < length ?d" by simp
  have d: "parse_block_desc (drop 0 ?d) = Inr (0x36, 20)"
    by (simp add: parse_block_desc_def unpack_def u32_def slice_def)
  have o: "length ?d < 0 + 20" by simp
  have c: "check_presence parse_block_unk30_blocks (init_blocks_parsed parse_block_unk30_blocks)
             1 0x36 = ([], ?bp)"
    by (simp add: check_presence_def parse_block_unk30_blocks_def init_blocks_parsed_def
          BlockID_Mesh_def BlockID_Properties_def BlockID_Unk35_def BlockID_Unk36_def)
  have t: "slice ?d (0 + 8) (0 + 20) = [1, 2]" by (simp add: slice_def)
  have p: "process_block_by_label (parse_blocks 0) 0x36 (slice ?d (0 + 8) (0 + 20)) 1 =
             Some ([Log VERBOSE (Trace (Unk36_trace 1 2))], Inr ())"
    unfolding t by (simp add: unk36_returns)
  have a: "after_blocks parse_block_unk30_blocks ?d 1 (length ?d) ?bp 0x36 =
             [Log WARNING (Invalid_occurrences_min 0x34), Log WARNING (Invalid_occurrences_min 0x35)]"
    by (simp add: after_blocks_def parse_block_unk30_blocks_def init_blocks_parsed_def
          BlockID_Mesh_def BlockID_Properties_def BlockID_Unk35_def BlockID_Unk36_def)
  have s: "parse_blocks_loop (Suc 0) parse_block_unk30_blocks ?d 1 0
             (init_blocks_parsed parse_block_unk30_blocks) (fst (last parse_block_unk30_blocks)) =
     Some ([Log VERBOSE (Trace (Unk36_trace 1 2)), Log ERROR (Contains_more_data 1 0x36),
            Log WARNING (Invalid_occurrences_min 0x34),
            Log WARNING (Invalid_occurrences_min 0x35)], Inr ())"
    using C3_overrun_dispatched [OF l d c, of 0 "[Log VERBOSE (Trace (Unk36_trace 1 2))]"
            "fst (last parse_block_unk30_blocks)", THEN conjunct1, rule_format, OF conjI,
            OF o p, THEN conjunct2]
    by (simp only: a append.simps)
  have r: "parse_blocks 1 parse_block_unk30_blocks ?d 1 =
     Some ([Log VERBOSE (Trace (Unk36_trace 1 2)), Log ERROR (Contains_more_data 1 0x36),
            Log WARNING (Invalid_occurrences_min 0x34),
            Log WARNING (Invalid_occurrences_min 0x35)], Inr ())"
    unfolding parse_blocks_def using s by (simp only: One_nat_def)
  let ?z = "[0x38, 0, 0, 0, 0, 0, 0, 0] :: bytes"
  have lz: "(0 :: nat) < length ?z" by simp
  have dz: "parse_block_desc (drop 0 ?z) = Inr (0x38, 0)"
    by (simp add: parse_block_desc_def unpack_def u32_def slice_def)
  obtain ez bz where cz: "check_presence parse_block_object_blocks
      (init_blocks_parsed parse_block_object_blocks) 1 0x38 = (ez, bz)"
    by (cases "check_presence parse_block_object_blocks
      (init_blocks_parsed parse_block_object_blocks) 1 0x38")
  have pz: "\<forall>m. \<exists>es. process_block_by_label (parse_blocks m) 0x38
                   (slice ?z (0 + 8) (0 + 0)) 1 = Some (es, Inr ())"
    by (simp add: process_block_by_label_def parse_block_unk38_def BlockID_Object_def
        BlockID_Unk30_def BlockID_Mesh_def BlockID_Vertices_def BlockID_Faces_def
        BlockID_Properties_def BlockID_Unk35_def BlockID_Unk36_def BlockID_Unk38_def)
  have z0: "(0 :: nat) = 0" by simp
  have sz: "parse_blocks_loop 9 parse_block_object_blocks ?z 1 0
             (init_blocks_parsed parse_block_object_blocks) (fst (last parse_block_object_blocks)) = None"
    using C3_overrun_dispatched [OF lz dz cz, of 0 "[]"
            "fst (last parse_block_object_blocks)", THEN conjunct2, rule_format, OF conjI,
            OF z0 pz, of 9] .
  have rz: "parse_blocks 9 parse_block_object_blocks ?z 1 = None"
    unfolding parse_blocks_def using sz .
  show ?thesis using l d o t r dz rz by (intro conjI)
qed

text \<open>
  C3 as stated fails. A Faces block in a Mesh block with the declared size 100 and four
  bytes of payload is given to the handler of Faces blocks before the error is logged.
  And a descriptor with the size 0 is accepted: the scan of an Unk36 block with the
  declared size 0 does not return (here with the fuel 50).
\<close>

theorem C3_overrun_dispatched_counterexample:
  "parse_blocks 1 parse_block_mesh_blocks [0x33, 0, 0, 0, 100, 0, 0, 0, 0, 0, 0, 0] 3 =
     Some ([Log VERBOSE (Trace (Faces_trace 3 4 0)), Log ERROR (Contains_more_data 3 0x33),
            Log WARNING (Invalid_occurrences_min 0x32)], Inr ()) \<and>
   parse_blocks 50 parse_block_unk30_blocks [0x36, 0, 0, 0, 0, 0, 0, 0] 0 = None"
proof -
  have 1: "parse_blocks 1 parse_block_mesh_blocks [0x33, 0, 0, 0, 100, 0, 0, 0, 0, 0, 0, 0] 3 =
     Some ([Log VERBOSE (Trace (Faces_trace 3 4 0)), Log ERROR (Contains_more_data 3 0x33),
            Log WARNING (Invalid_occurrences_min 0x32)], Inr ())"
    by code_simp
  have l: "(0 :: nat) < length [0x36, 0, 0, 0, 0, 0, 0, 0 :: byte]" by simp
  have d: "parse_block_desc (drop 0 [0x36, 0, 0, 0, 0, 0, 0, 0]) = Inr (0x36, 0)"
    by (simp add: parse_block_desc_def unpack_def u32_def slice_def)
  have "parse_blocks_loop 50 parse_block_unk30_blocks [0x36, 0, 0, 0, 0, 0, 0, 0] 0 0
          (init_blocks_parsed parse_block_unk30_blocks) (fst (last parse_block_unk30_blocks)) = None"
    using l d by (rule size_zero_loop) (simp add: unk36_returns)
  then have 2: "parse_blocks 50 parse_block_unk30_blocks [0x36, 0, 0, 0, 0, 0, 0, 0] 0 = None"
    by (simp only: parse_blocks_def)
  show ?thesis using 1 2 by (intro conjI)
qed

section \<open>Two blocks with a label that may occur once (C9)\<close>




section \<open>The depth of the blocks (C7)\<close>




end
